theory Spec2Isabelle
  imports Complex_Main "HOL-Library.AList" "HOL-Library.Sublist"
begin

section \<open>Tensors and the tensor store\<close>

text \<open>
  The optimizers of \<^verbatim>\<open>examples/common/optim/outlier_lion.py\<close> work on torch tensors that
  they mutate in place. A tensor is modelled by the list of its elements (its flattened
  contents), with exact real arithmetic in place of floating point, and every tensor
  object lives at an address of a store, so that an in-place method (\<^verbatim>\<open>mul_\<close>,
  \<^verbatim>\<open>add_\<close>, \<^verbatim>\<open>lerp_\<close>, \<^verbatim>\<open>sign_\<close>) overwrites a cell and an out-of-place method
  (\<^verbatim>\<open>lerp\<close>, \<^verbatim>\<open>div\<close>, \<^verbatim>\<open>clone\<close>, \<^verbatim>\<open>zeros_like\<close>) allocates a new one.
  Elementwise operations of two tensors are taken on tensors of one shape, which torch
  enforces for a parameter, its gradient and a \<^verbatim>\<open>zeros_like\<close> of it.
\<close>

type_synonym tensor = "real list"
type_synonym addr = nat

record heap =
  cells :: "addr \<Rightarrow> tensor"
  next_addr :: addr

definition alloc :: "heap \<Rightarrow> tensor \<Rightarrow> addr \<times> heap" where
  "alloc h t = (next_addr h, h\<lparr>cells := (cells h)(next_addr h := t), next_addr := Suc (next_addr h)\<rparr>)"

definition store :: "heap \<Rightarrow> addr \<Rightarrow> tensor \<Rightarrow> heap" where
  "store h a t = h\<lparr>cells := (cells h)(a := t)\<rparr>"

subsection \<open>Elementwise primitives on tensor values\<close>

definition t_lerp :: "tensor \<Rightarrow> tensor \<Rightarrow> real \<Rightarrow> tensor" where
  \<comment> \<open>\<^verbatim>\<open>torch.lerp(start, end, weight) = start + weight * (end - start)\<close>\<close>
  "t_lerp s e w = map2 (\<lambda>a b. a + w * (b - a)) s e"

definition t_sign :: "tensor \<Rightarrow> tensor" where
  "t_sign t = map sgn t"

definition t_mul :: "tensor \<Rightarrow> real \<Rightarrow> tensor" where
  "t_mul t c = map (\<lambda>x. x * c) t"

text \<open>
  A float tensor divided by the scalar zero is filled with \<^verbatim>\<open>inf\<close> and \<^verbatim>\<open>nan\<close>, and
  nothing is raised. A list of reals cannot hold them: \<open>at_zero\<close> is a parameter that
  stands for what the tensor then holds, and nothing is assumed of it.
\<close>

definition t_div :: "(tensor \<Rightarrow> tensor) \<Rightarrow> tensor \<Rightarrow> real \<Rightarrow> tensor" where
  "t_div at_zero t c = (if c = 0 then at_zero t else map (\<lambda>x. x / c) t)"

definition t_add :: "tensor \<Rightarrow> tensor \<Rightarrow> real \<Rightarrow> tensor" where
  \<comment> \<open>\<^verbatim>\<open>t.add(u, alpha=a) = t + a * u\<close>\<close>
  "t_add t u a = map2 (\<lambda>x y. x + a * y) t u"

definition vector_norm :: "tensor \<Rightarrow> real" where
  \<comment> \<open>\<^verbatim>\<open>torch.linalg.vector_norm\<close>, the 2-norm of the flattened tensor\<close>
  "vector_norm t = sqrt (sum_list (map (\<lambda>x. x\<^sup>2) t))"

subsection \<open>Tensor methods on the store\<close>

definition lerp :: "heap \<Rightarrow> addr \<Rightarrow> addr \<Rightarrow> real \<Rightarrow> addr \<times> heap" where
  "lerp h a b w = alloc h (t_lerp (cells h a) (cells h b) w)"

definition lerp_inplace :: "heap \<Rightarrow> addr \<Rightarrow> addr \<Rightarrow> real \<Rightarrow> heap" where
  "lerp_inplace h a b w = store h a (t_lerp (cells h a) (cells h b) w)"

definition sign_inplace :: "heap \<Rightarrow> addr \<Rightarrow> heap" where
  "sign_inplace h a = store h a (t_sign (cells h a))"

definition mul_inplace :: "heap \<Rightarrow> addr \<Rightarrow> real \<Rightarrow> heap" where
  "mul_inplace h a c = store h a (t_mul (cells h a) c)"

definition add_inplace :: "heap \<Rightarrow> addr \<Rightarrow> addr \<Rightarrow> real \<Rightarrow> heap" where
  "add_inplace h a b alpha = store h a (t_add (cells h a) (cells h b) alpha)"

definition div_out :: "(tensor \<Rightarrow> tensor) \<Rightarrow> heap \<Rightarrow> addr \<Rightarrow> real \<Rightarrow> addr \<times> heap" where
  "div_out at_zero h a c = alloc h (t_div at_zero (cells h a) c)"

definition clone :: "heap \<Rightarrow> addr \<Rightarrow> addr \<times> heap" where
  "clone h a = alloc h (cells h a)"

definition zeros_like :: "heap \<Rightarrow> addr \<Rightarrow> addr \<times> heap" where
  "zeros_like h a = alloc h (replicate (length (cells h a)) 0)"

section \<open>The shared update rule\<close>

text \<open>
  \<^verbatim>\<open>lionw\<close> is a static method that the five classes (SkipLion, AdaBetaLion, AdaLRLion,
  ClipLion, FullyAdaptiveLion) each define with the same body; one definition stands
  for the five. \<^verbatim>\<open>p\<close>, \<^verbatim>\<open>grad\<close> and \<^verbatim>\<open>exp_avg\<close> are tensor objects, here addresses.
  \<^verbatim>\<open>if initial_lr\<close> tests a float for truth: it is false exactly at zero.
\<close>

definition lionw :: "heap \<Rightarrow> addr \<Rightarrow> addr \<Rightarrow> addr \<Rightarrow> real \<Rightarrow> real \<Rightarrow> real \<Rightarrow> real \<Rightarrow> real \<Rightarrow> heap" where
  "lionw h p grad exp_avg lr initial_lr wd beta1 beta2 =
     (let h1 = (if wd \<noteq> 0
                then (let decay_factor = (if initial_lr \<noteq> 0 then lr / initial_lr else 1.0)
                      in mul_inplace h p (1 - decay_factor * wd))
                else h);
          (update, h2) = lerp h1 exp_avg grad (1 - beta1);
          h3 = sign_inplace h2 update;
          h4 = add_inplace h3 p update (- lr)
      in lerp_inplace h4 exp_avg grad (1 - beta2))"

section \<open>Errors, external collaborators and shared helpers\<close>

text \<open>
  Every exception that the source can raise is a value.
\<close>

datatype error = AssertionError | ValueError | KeyError | TypeError | ZeroDivisionError
  | IndexError | OverflowError

text \<open>
  The class \<^verbatim>\<open>OutlierDetector\<close> (\<^verbatim>\<open>examples/common/optim/outlier_detection.py\<close>) is not
  among the sources. The optimizers use its constructor and two methods only; they are
  parameters of the model, over any type \<open>'d\<close> of detector states. \<open>insert_observation\<close>
  returns its answer and the detector it has updated.
\<close>

record 'd outlier_detection =
  OutlierDetector :: "real \<Rightarrow> 'd"
  insert_observation :: "'d \<Rightarrow> real \<Rightarrow> bool \<times> 'd"
  get_slow_mva :: "'d \<Rightarrow> real"

text \<open>
  \<^verbatim>\<open>composer.utils.dist\<close>: the number of workers, and the sum over all workers of a
  scalar as a function of this worker's value.
\<close>

record dist =
  get_world_size :: nat
  all_reduce :: "real \<Rightarrow> real"

definition math_sqrt :: "real \<Rightarrow> error + real" where
  "math_sqrt x = (if x < 0 then Inl ValueError else Inr (sqrt x))"

text \<open>
  \<^verbatim>\<open>x ** n\<close> for a Python float \<^verbatim>\<open>x\<close> and a length \<^verbatim>\<open>n\<close>. Python raises
  \<^verbatim>\<open>OverflowError\<close> when the result is too large for a double, that is when the power
  rounds to infinity: from \<open>2 ^ 1024 - 2 ^ 970\<close> on, half a unit in the last place above
  the largest double. \<^verbatim>\<open>1.5 ** 1750\<close> is a double and \<^verbatim>\<open>1.5 ** 1751\<close> raises. A result
  too small for a double is zero and raises nothing.
\<close>

definition float_pow :: "real \<Rightarrow> nat \<Rightarrow> error + real" where
  "float_pow x n = (if \<bar>x ^ n\<bar> \<ge> 2 ^ 1024 - 2 ^ 970 then Inl OverflowError else Inr (x ^ n))"

fun for_each :: "('a \<Rightarrow> 's \<Rightarrow> error + 's) \<Rightarrow> 'a list \<Rightarrow> 's \<Rightarrow> error + 's" where
  "for_each f [] s = Inr s"
| "for_each f (x # xs) s = (case f x s of Inl e \<Rightarrow> Inl e | Inr s' \<Rightarrow> for_each f xs s')"

section \<open>Parameters, groups and optimizer state\<close>

text \<open>
  A parameter is identified by the address of its tensor (\<^verbatim>\<open>p.data\<close> shares the storage
  of \<^verbatim>\<open>p\<close>); \<^verbatim>\<open>self.state\<close> is keyed by it, and a missing entry stands for the empty
  dictionary that \<^verbatim>\<open>self.state[p]\<close> creates. Record fields carry the name of their
  owner as a prefix: \<^verbatim>\<open>group['lr']\<close> is \<open>group_lr\<close>, \<^verbatim>\<open>state['step']\<close> is
  \<open>state_step\<close>, \<^verbatim>\<open>self.timeout\<close> is \<open>self_timeout\<close>, \<^verbatim>\<open>p.grad\<close> is \<open>param_grad\<close>.
\<close>

record param =
  param_data :: addr
  param_grad :: "addr option"
  param_requires_grad :: bool

record lion_group =
  group_params :: "param list"
  group_lr :: real
  group_betas :: "real \<times> real"
  group_initial_lr :: real

record wd_group = lion_group +
  group_weight_decay :: real

record lion_state =
  state_exp_avg :: addr

record 'd moment_state = lion_state +
  state_moment_tracker :: 'd

record 'd skip_state = "'d moment_state" +
  state_skipped_batches :: real

record 'd window_state = "'d moment_state" +
  state_outlier_timestamp :: "int list"
  state_step :: int

record 'd clip_state = lion_state +
  state_grad_tracker :: 'd
  state_clipped_batches :: real

record ('g, 's) optimizer =
  self_param_groups :: "'g list"
  self_state :: "addr \<rightharpoonup> 's"
  self_outlier_threshold :: real

record ('g, 's) window_optimizer = "('g, 's) optimizer" +
  self_timeout :: int

record ('g, 's) adabeta_optimizer = "('g, 's) window_optimizer" +
  self_increase :: bool

record ('g, 's) adalr_optimizer = "('g, 's) window_optimizer" +
  self_lr_penalty :: real
  self_min_scale :: real

record ('g, 's) fully_optimizer = "('g, 's) window_optimizer" +
  self_param_adjustment :: real
  self_param_init_norm :: "addr \<rightharpoonup> real"
  self_param_wd_scaling :: "addr \<rightharpoonup> real"

type_synonym 'd SkipLion = "(wd_group, 'd skip_state) optimizer"
type_synonym 'd ClipLion = "(wd_group, 'd clip_state) optimizer"
type_synonym 'd AdaBetaLion = "(wd_group, 'd window_state) adabeta_optimizer"
type_synonym 'd AdaLRLion = "(wd_group, 'd window_state) adalr_optimizer"
type_synonym 'd FullyAdaptiveLion = "(lion_group, 'd window_state) fully_optimizer"

datatype warning = HighWeightDecay real

section \<open>Constructors\<close>

text \<open>
  \<^verbatim>\<open>__init__\<close> of the five classes. \<^verbatim>\<open>params\<close> is given as the parameter lists of the
  groups; \<^verbatim>\<open>super().__init__(params, defaults)\<close> (torch, outside the repository) is taken
  to build one group for each with the defaults. The result carries the warnings
  logged; FullyAdaptiveLion prints \<^verbatim>\<open>lr\<close> before it checks anything, and returns what
  it printed beside the result.
\<close>

definition SkipLion_init :: "param list list \<Rightarrow> real \<Rightarrow> real \<times> real \<Rightarrow> real \<Rightarrow> real
    \<Rightarrow> error + ('d SkipLion \<times> warning list)" where
  "SkipLion_init params lr betas weight_decay outlier_threshold =
     (if \<not> lr > 0 then Inl AssertionError
      else if \<not> list_all (\<lambda>beta. 0 \<le> beta \<and> beta \<le> 1) [fst betas, snd betas] then Inl AssertionError
      else (let logged = (if weight_decay \<ge> 0.001 then [HighWeightDecay weight_decay] else []);
                param_groups = map (\<lambda>ps. \<lparr>group_params = ps, group_lr = lr, group_betas = betas,
                                           group_initial_lr = lr, group_weight_decay = weight_decay\<rparr>) params
            in Inr (\<lparr>self_param_groups = param_groups, self_state = Map.empty,
                      self_outlier_threshold = outlier_threshold\<rparr>, logged)))"

definition AdaBetaLion_init :: "param list list \<Rightarrow> real \<Rightarrow> real \<times> real \<Rightarrow> real \<Rightarrow> real \<Rightarrow> bool \<Rightarrow> int
    \<Rightarrow> error + ('d AdaBetaLion \<times> warning list)" where
  "AdaBetaLion_init params lr betas weight_decay outlier_threshold increase timeout =
     (if \<not> lr > 0 then Inl AssertionError
      else if \<not> list_all (\<lambda>beta. 0 \<le> beta \<and> beta \<le> 1) [fst betas, snd betas] then Inl AssertionError
      else (let logged = (if weight_decay \<ge> 0.001 then [HighWeightDecay weight_decay] else []);
                param_groups = map (\<lambda>ps. \<lparr>group_params = ps, group_lr = lr, group_betas = betas,
                                           group_initial_lr = lr, group_weight_decay = weight_decay\<rparr>) params
            in Inr (\<lparr>self_param_groups = param_groups, self_state = Map.empty,
                      self_outlier_threshold = outlier_threshold, self_timeout = timeout,
                      self_increase = increase\<rparr>, logged)))"

definition AdaLRLion_init :: "param list list \<Rightarrow> real \<Rightarrow> real \<times> real \<Rightarrow> real \<Rightarrow> real \<Rightarrow> int \<Rightarrow> real \<Rightarrow> real
    \<Rightarrow> error + ('d AdaLRLion \<times> warning list)" where
  "AdaLRLion_init params lr betas weight_decay outlier_threshold timeout lr_penalty min_scale =
     (if \<not> lr > 0 then Inl AssertionError
      else if \<not> list_all (\<lambda>beta. 0 \<le> beta \<and> beta \<le> 1) [fst betas, snd betas] then Inl AssertionError
      else (let logged = (if weight_decay \<ge> 0.001 then [HighWeightDecay weight_decay] else []);
                param_groups = map (\<lambda>ps. \<lparr>group_params = ps, group_lr = lr, group_betas = betas,
                                           group_initial_lr = lr, group_weight_decay = weight_decay\<rparr>) params
            in Inr (\<lparr>self_param_groups = param_groups, self_state = Map.empty,
                      self_outlier_threshold = outlier_threshold, self_timeout = timeout,
                      self_lr_penalty = lr_penalty, self_min_scale = min_scale\<rparr>, logged)))"

definition ClipLion_init :: "param list list \<Rightarrow> real \<Rightarrow> real \<times> real \<Rightarrow> real \<Rightarrow> real
    \<Rightarrow> error + ('d ClipLion \<times> warning list)" where
  "ClipLion_init params lr betas weight_decay outlier_threshold =
     (if \<not> lr > 0 then Inl AssertionError
      else if \<not> list_all (\<lambda>beta. 0 \<le> beta \<and> beta \<le> 1) [fst betas, snd betas] then Inl AssertionError
      else (let logged = (if weight_decay \<ge> 0.001 then [HighWeightDecay weight_decay] else []);
                param_groups = map (\<lambda>ps. \<lparr>group_params = ps, group_lr = lr, group_betas = betas,
                                           group_initial_lr = lr, group_weight_decay = weight_decay\<rparr>) params
            in Inr (\<lparr>self_param_groups = param_groups, self_state = Map.empty,
                      self_outlier_threshold = outlier_threshold\<rparr>, logged)))"

definition FullyAdaptiveLion_init :: "param list list \<Rightarrow> real \<Rightarrow> real \<times> real \<Rightarrow> real \<Rightarrow> int \<Rightarrow> real
    \<Rightarrow> real list \<times> (error + 'd FullyAdaptiveLion)" where
  "FullyAdaptiveLion_init params lr betas outlier_threshold timeout param_adjustment =
     ([lr],
      if \<not> lr > 0 then Inl AssertionError
      else if \<not> list_all (\<lambda>beta. 0 \<le> beta \<and> beta \<le> 1) [fst betas, snd betas] then Inl AssertionError
      else (let param_groups = map (\<lambda>ps. \<lparr>group_params = ps, group_lr = lr, group_betas = betas,
                                           group_initial_lr = lr\<rparr>) params
            in Inr \<lparr>self_param_groups = param_groups, self_state = Map.empty,
                     self_outlier_threshold = outlier_threshold, self_timeout = timeout,
                     self_param_adjustment = param_adjustment,
                     self_param_init_norm = Map.empty, self_param_wd_scaling = Map.empty\<rparr>))"

section \<open>SkipLion.step\<close>

text \<open>
  Each \<open>step_body\<close> below is the body of the inner loop of \<^verbatim>\<open>step\<close>, for one parameter
  of one group; \<open>step\<close> runs it over the parameters that \<^verbatim>\<open>filter\<close> keeps, group after
  group. The state of the loop is the store and the optimizer. \<open>init_state\<close> is the
  block under \<^verbatim>\<open>if len(state) == 0\<close>. The closure, when there is one, is any function
  on the store that returns the loss.
\<close>

definition SkipLion_init_state :: "'d outlier_detection \<Rightarrow> 'd SkipLion \<Rightarrow> heap \<Rightarrow> param
    \<Rightarrow> heap \<times> 'd skip_state" where
  "SkipLion_init_state det self h p =
     (case self_state self (param_data p) of
        None \<Rightarrow> (let (z, h') = zeros_like h (param_data p)
                 in (h', \<lparr>state_exp_avg = z,
                          state_moment_tracker = OutlierDetector det (self_outlier_threshold self),
                          state_skipped_batches = 0.0\<rparr>))
      | Some s \<Rightarrow> (h, s))"

definition SkipLion_step_body :: "'d outlier_detection \<Rightarrow> dist \<Rightarrow> wd_group \<Rightarrow> param
    \<Rightarrow> heap \<times> 'd SkipLion \<Rightarrow> error + heap \<times> 'd SkipLion" where
  "SkipLion_step_body det world grp p hs =
     (case param_grad p of
        None \<Rightarrow> Inr hs
      | Some grad \<Rightarrow>
         (let (h, self) = hs;
              lr = group_lr grp; initial_lr = group_initial_lr grp;
              wd = group_weight_decay grp; (beta1, beta2) = group_betas grp;
              (h, state) = SkipLion_init_state det self h p;
              exp_avg = state_exp_avg state;
              (t, h) = lerp h exp_avg grad (1 - beta2);
              moment_norm = (vector_norm (cells h t))\<^sup>2;
              moment_norm = (if get_world_size world > 1 then all_reduce world moment_norm
                             else moment_norm)
          in case math_sqrt moment_norm of
               Inl e \<Rightarrow> Inl e
             | Inr moment_norm \<Rightarrow>
                (let (flag, tracker) = insert_observation det (state_moment_tracker state) moment_norm
                 in if flag
                    then Inr (h, self\<lparr>self_state := (self_state self)(param_data p \<mapsto>
                                 state\<lparr>state_moment_tracker := tracker,
                                       state_skipped_batches := state_skipped_batches state + 1.0\<rparr>)\<rparr>)
                    else Inr (lionw h (param_data p) grad exp_avg lr initial_lr wd beta1 beta2,
                              self\<lparr>self_state := (self_state self)(param_data p \<mapsto>
                                 state\<lparr>state_moment_tracker := tracker\<rparr>)\<rparr>))))"

definition run_closure :: "(heap \<Rightarrow> 'l \<times> heap) option \<Rightarrow> heap \<Rightarrow> 'l option \<times> heap" where
  "run_closure closure h =
     (case closure of None \<Rightarrow> (None, h) | Some c \<Rightarrow> (let (l, h') = c h in (Some l, h')))"

definition with_grad :: "param list \<Rightarrow> param list" where
  \<comment> \<open>\<^verbatim>\<open>filter(lambda p: p.grad is not None and p.requires_grad, group['params'])\<close>\<close>
  "with_grad ps = filter (\<lambda>p. param_grad p \<noteq> None \<and> param_requires_grad p) ps"

definition SkipLion_step :: "'d outlier_detection \<Rightarrow> dist \<Rightarrow> 'd SkipLion \<Rightarrow> (heap \<Rightarrow> 'l \<times> heap) option
    \<Rightarrow> heap \<Rightarrow> error + ('l option \<times> heap \<times> 'd SkipLion)" where
  "SkipLion_step det world self closure h =
     (let (loss, h) = run_closure closure h
      in case for_each (\<lambda>grp. for_each (SkipLion_step_body det world grp)
                                   (with_grad (group_params grp)))
                (self_param_groups self) (h, self) of
           Inl e \<Rightarrow> Inl e
         | Inr (h', self') \<Rightarrow> Inr (loss, h', self'))"

section \<open>ClipLion.step\<close>

definition ClipLion_init_state :: "'d outlier_detection \<Rightarrow> 'd ClipLion \<Rightarrow> heap \<Rightarrow> param
    \<Rightarrow> heap \<times> 'd clip_state" where
  "ClipLion_init_state det self h p =
     (case self_state self (param_data p) of
        None \<Rightarrow> (let (z, h') = zeros_like h (param_data p)
                 in (h', \<lparr>state_exp_avg = z,
                          state_grad_tracker = OutlierDetector det (self_outlier_threshold self),
                          state_clipped_batches = 0.0\<rparr>))
      | Some s \<Rightarrow> (h, s))"

definition ClipLion_step_body :: "(tensor \<Rightarrow> tensor) \<Rightarrow> 'd outlier_detection \<Rightarrow> dist \<Rightarrow> wd_group
    \<Rightarrow> param \<Rightarrow> heap \<times> 'd ClipLion \<Rightarrow> error + heap \<times> 'd ClipLion" where
  "ClipLion_step_body at_zero det world grp p hs =
     (case param_grad p of
        None \<Rightarrow> Inr hs
      | Some grad \<Rightarrow>
         (let (h, self) = hs;
              lr = group_lr grp; initial_lr = group_initial_lr grp;
              wd = group_weight_decay grp; (beta1, beta2) = group_betas grp;
              (h, state) = ClipLion_init_state det self h p;
              exp_avg = state_exp_avg state;
              grad_norm = (vector_norm (cells h grad))\<^sup>2;
              grad_norm = (if get_world_size world > 1 then all_reduce world grad_norm else grad_norm)
          in case math_sqrt grad_norm of
               Inl e \<Rightarrow> Inl e
             | Inr grad_norm \<Rightarrow>
                (let (flag, tracker) = insert_observation det (state_grad_tracker state) grad_norm
                 in if flag
                    then (let clipped_batches = state_clipped_batches state + 1.0;
                              clip_norm = get_slow_mva det tracker * self_outlier_threshold self;
                              (g, h) = div_out at_zero h grad grad_norm;
                              h = mul_inplace h g clip_norm
                          in Inr (lionw h (param_data p) g exp_avg lr initial_lr wd beta1 beta2,
                                  self\<lparr>self_state := (self_state self)(param_data p \<mapsto>
                                     state\<lparr>state_grad_tracker := tracker,
                                           state_clipped_batches := clipped_batches\<rparr>)\<rparr>))
                    else Inr (lionw h (param_data p) grad exp_avg lr initial_lr wd beta1 beta2,
                              self\<lparr>self_state := (self_state self)(param_data p \<mapsto>
                                 state\<lparr>state_grad_tracker := tracker\<rparr>)\<rparr>))))"

definition ClipLion_step :: "(tensor \<Rightarrow> tensor) \<Rightarrow> 'd outlier_detection \<Rightarrow> dist \<Rightarrow> 'd ClipLion
    \<Rightarrow> (heap \<Rightarrow> 'l \<times> heap) option \<Rightarrow> heap \<Rightarrow> error + ('l option \<times> heap \<times> 'd ClipLion)" where
  "ClipLion_step at_zero det world self closure h =
     (let (loss, h) = run_closure closure h
      in case for_each (\<lambda>grp. for_each (ClipLion_step_body at_zero det world grp)
                                   (with_grad (group_params grp)))
                (self_param_groups self) (h, self) of
           Inl e \<Rightarrow> Inl e
         | Inr (h', self') \<Rightarrow> Inr (loss, h', self'))"

section \<open>The outlier window\<close>

text \<open>
  AdaBetaLion, AdaLRLion and FullyAdaptiveLion keep the steps at which an outlier was
  flagged and drop the old ones with the same two loops: the first collects the expired
  entries in \<^verbatim>\<open>removed\<close>, the second calls \<^verbatim>\<open>list.remove\<close> for each, which deletes
  the first equal element (it raises when there is none, which cannot happen for an
  element just read from the list).
\<close>

definition evict :: "int \<Rightarrow> int \<Rightarrow> int list \<Rightarrow> int list" where
  "evict timeout step outlier_timestamp =
     (let removed = filter (\<lambda>ts. step - ts > timeout) outlier_timestamp
      in foldl (\<lambda>l ts. remove1 ts l) outlier_timestamp removed)"

text \<open>
  What one step does to \<^verbatim>\<open>state['step']\<close> and \<^verbatim>\<open>state['outlier_timestamp']\<close>, given the
  answer of the detector: the append, the eviction and the increment are the same
  lines in the three classes. It serves to follow the window over a run of steps.
\<close>

definition window_step :: "int \<Rightarrow> bool \<Rightarrow> int \<times> int list \<Rightarrow> int \<times> int list" where
  "window_step timeout flag sw =
     (let (step, outlier_timestamp) = sw;
          outlier_timestamp = (if flag then outlier_timestamp @ [step] else outlier_timestamp);
          outlier_timestamp = evict timeout step outlier_timestamp
      in (step + 1, outlier_timestamp))"

definition window_run :: "int \<Rightarrow> bool list \<Rightarrow> int \<times> int list" where
  \<comment> \<open>the window of a fresh state after one step for each answer of the list\<close>
  "window_run timeout flags = foldl (\<lambda>sw flag. window_step timeout flag sw) (0, []) flags"

definition window_init_state :: "'d outlier_detection \<Rightarrow> real \<Rightarrow> (addr \<rightharpoonup> 'd window_state) \<Rightarrow> heap \<Rightarrow> param
    \<Rightarrow> heap \<times> 'd window_state" where
  "window_init_state det outlier_threshold st h p =
     (case st (param_data p) of
        None \<Rightarrow> (let (z, h') = zeros_like h (param_data p)
                 in (h', \<lparr>state_exp_avg = z,
                          state_moment_tracker = OutlierDetector det outlier_threshold,
                          state_outlier_timestamp = [],
                          state_step = 0\<rparr>))
      | Some s \<Rightarrow> (h, s))"

section \<open>AdaBetaLion.step\<close>

text \<open>
  \<^verbatim>\<open>adjust_betas\<close> takes the power \<^verbatim>\<open>scale ** num_times\<close> twice, and the first one raises
  when the window is long enough and \<^verbatim>\<open>increase\<close> is false; the step then stops before
  the update and before the step counter moves.
\<close>

definition adjust_betas :: "real \<Rightarrow> real \<Rightarrow> bool \<Rightarrow> nat \<Rightarrow> error + real \<times> real" where
  "adjust_betas beta1 beta2 increase num_times =
     (let scale = (if increase then 0.5 else 1.5)
      in case float_pow scale num_times of
           Inl e \<Rightarrow> Inl e
         | Inr pow1 \<Rightarrow>
            (let beta1 = 1 - ((1 - beta1) * pow1)
             in case float_pow scale num_times of
                  Inl e \<Rightarrow> Inl e
                | Inr pow2 \<Rightarrow>
                   (let beta2 = 1 - ((1 - beta2) * pow2)
                    in Inr (beta1, beta2))))"

definition AdaBetaLion_step_body :: "'d outlier_detection \<Rightarrow> dist \<Rightarrow> wd_group \<Rightarrow> param
    \<Rightarrow> heap \<times> 'd AdaBetaLion \<Rightarrow> error + heap \<times> 'd AdaBetaLion" where
  "AdaBetaLion_step_body det world grp p hs =
     (case param_grad p of
        None \<Rightarrow> Inr hs
      | Some grad \<Rightarrow>
         (let (h, self) = hs;
              lr = group_lr grp; initial_lr = group_initial_lr grp;
              wd = group_weight_decay grp; (beta1, beta2) = group_betas grp;
              (h, state) = window_init_state det (self_outlier_threshold self) (self_state self) h p;
              exp_avg = state_exp_avg state;
              (t, h) = lerp h exp_avg grad (1 - beta2);
              moment_norm = (vector_norm (cells h t))\<^sup>2;
              moment_norm = (if get_world_size world > 1 then all_reduce world moment_norm
                             else moment_norm)
          in case math_sqrt moment_norm of
               Inl e \<Rightarrow> Inl e
             | Inr moment_norm \<Rightarrow>
                (let (flag, tracker) = insert_observation det (state_moment_tracker state) moment_norm;
                     outlier_timestamp = (if flag then state_outlier_timestamp state @ [state_step state]
                                          else state_outlier_timestamp state);
                     outlier_timestamp = evict (self_timeout self) (state_step state) outlier_timestamp
                 in case adjust_betas beta1 beta2 (self_increase self) (length outlier_timestamp) of
                      Inl e \<Rightarrow> Inl e
                    | Inr (beta1, beta2) \<Rightarrow>
                       Inr (lionw h (param_data p) grad exp_avg lr initial_lr wd beta1 beta2,
                            self\<lparr>self_state := (self_state self)(param_data p \<mapsto>
                               state\<lparr>state_moment_tracker := tracker,
                                     state_outlier_timestamp := outlier_timestamp,
                                     state_step := state_step state + 1\<rparr>)\<rparr>))))"

definition AdaBetaLion_step :: "'d outlier_detection \<Rightarrow> dist \<Rightarrow> 'd AdaBetaLion \<Rightarrow> (heap \<Rightarrow> 'l \<times> heap) option
    \<Rightarrow> heap \<Rightarrow> error + ('l option \<times> heap \<times> 'd AdaBetaLion)" where
  "AdaBetaLion_step det world self closure h =
     (let (loss, h) = run_closure closure h
      in case for_each (\<lambda>grp. for_each (AdaBetaLion_step_body det world grp)
                                   (with_grad (group_params grp)))
                (self_param_groups self) (h, self) of
           Inl e \<Rightarrow> Inl e
         | Inr (h', self') \<Rightarrow> Inr (loss, h', self'))"

section \<open>AdaLRLion.step\<close>

definition adjust_lr :: "real \<Rightarrow> real \<Rightarrow> nat \<Rightarrow> real \<Rightarrow> error + real" where
  "adjust_lr lr lr_penalty num_times min_scale =
     (case float_pow lr_penalty num_times of
        Inl e \<Rightarrow> Inl e
      | Inr penalty \<Rightarrow> Inr (lr * max min_scale penalty))"

definition AdaLRLion_step_body :: "'d outlier_detection \<Rightarrow> dist \<Rightarrow> wd_group \<Rightarrow> param
    \<Rightarrow> heap \<times> 'd AdaLRLion \<Rightarrow> error + heap \<times> 'd AdaLRLion" where
  "AdaLRLion_step_body det world grp p hs =
     (case param_grad p of
        None \<Rightarrow> Inr hs
      | Some grad \<Rightarrow>
         (let (h, self) = hs;
              lr = group_lr grp; initial_lr = group_initial_lr grp;
              wd = group_weight_decay grp; (beta1, beta2) = group_betas grp;
              (h, state) = window_init_state det (self_outlier_threshold self) (self_state self) h p;
              exp_avg = state_exp_avg state;
              (t, h) = lerp h exp_avg grad (1 - beta2);
              moment_norm = (vector_norm (cells h t))\<^sup>2;
              moment_norm = (if get_world_size world > 1 then all_reduce world moment_norm
                             else moment_norm)
          in case math_sqrt moment_norm of
               Inl e \<Rightarrow> Inl e
             | Inr moment_norm \<Rightarrow>
                (let (flag, tracker) = insert_observation det (state_moment_tracker state) moment_norm;
                     outlier_timestamp = (if flag then state_outlier_timestamp state @ [state_step state]
                                          else state_outlier_timestamp state);
                     outlier_timestamp = evict (self_timeout self) (state_step state) outlier_timestamp
                 in case adjust_lr lr (self_lr_penalty self) (length outlier_timestamp)
                           (self_min_scale self) of
                      Inl e \<Rightarrow> Inl e
                    | Inr lr \<Rightarrow>
                       Inr (lionw h (param_data p) grad exp_avg lr initial_lr wd beta1 beta2,
                            self\<lparr>self_state := (self_state self)(param_data p \<mapsto>
                               state\<lparr>state_moment_tracker := tracker,
                                     state_outlier_timestamp := outlier_timestamp,
                                     state_step := state_step state + 1\<rparr>)\<rparr>))))"

definition AdaLRLion_step :: "'d outlier_detection \<Rightarrow> dist \<Rightarrow> 'd AdaLRLion \<Rightarrow> (heap \<Rightarrow> 'l \<times> heap) option
    \<Rightarrow> heap \<Rightarrow> error + ('l option \<times> heap \<times> 'd AdaLRLion)" where
  "AdaLRLion_step det world self closure h =
     (let (loss, h) = run_closure closure h
      in case for_each (\<lambda>grp. for_each (AdaLRLion_step_body det world grp)
                                   (with_grad (group_params grp)))
                (self_param_groups self) (h, self) of
           Inl e \<Rightarrow> Inl e
         | Inr (h', self') \<Rightarrow> Inr (loss, h', self'))"

section \<open>FullyAdaptiveLion.step\<close>

text \<open>
  The loop of FullyAdaptiveLion also fills two local dictionaries, keyed by parameter:
  the squared norm of a parameter seen for the first time, taken before its update, and
  the squared norm of every parameter after its update. Three loops after it reduce
  them and store the new weight-decay scaling. \<^verbatim>\<open>p_t\<close> and \<^verbatim>\<open>p_0\<close> are Python floats
  there (results of \<^verbatim>\<open>math.sqrt\<close>), so the division raises at \<open>p_0 = 0\<close>.
\<close>

definition adjust_param :: "real \<Rightarrow> real \<Rightarrow> nat \<Rightarrow> real" where
  "adjust_param lr param_adjustment num_times = lr * (param_adjustment ^ num_times)"

type_synonym 'd fully_loop =
  "heap \<times> 'd FullyAdaptiveLion \<times> (addr \<times> real) list \<times> (addr \<times> real) list"

definition FullyAdaptiveLion_step_body :: "'d outlier_detection \<Rightarrow> dist \<Rightarrow> lion_group \<Rightarrow> param
    \<Rightarrow> 'd fully_loop \<Rightarrow> error + 'd fully_loop" where
  "FullyAdaptiveLion_step_body det world grp p hs =
     (case param_grad p of
        None \<Rightarrow> Inr hs
      | Some grad \<Rightarrow>
         (let (h, self, tmp_param_init_norm, tmp_param_current_norm) = hs;
              tmp_param_init_norm =
                (if self_param_init_norm self (param_data p) = None
                 then AList.update (param_data p) ((vector_norm (cells h (param_data p)))\<^sup>2)
                        tmp_param_init_norm
                 else tmp_param_init_norm);
              lr = group_lr grp; initial_lr = group_initial_lr grp;
              (beta1, beta2) = group_betas grp;
              (h, state) = window_init_state det (self_outlier_threshold self) (self_state self) h p;
              exp_avg = state_exp_avg state;
              (t, h) = lerp h exp_avg grad (1 - beta2);
              moment_norm = (vector_norm (cells h t))\<^sup>2;
              moment_norm = (if get_world_size world > 1 then all_reduce world moment_norm
                             else moment_norm)
          in case math_sqrt moment_norm of
               Inl e \<Rightarrow> Inl e
             | Inr moment_norm \<Rightarrow>
                (let (flag, tracker) = insert_observation det (state_moment_tracker state) moment_norm;
                     outlier_timestamp = (if flag then state_outlier_timestamp state @ [state_step state]
                                          else state_outlier_timestamp state);
                     outlier_timestamp = evict (self_timeout self) (state_step state) outlier_timestamp;
                     lr = adjust_param lr (self_param_adjustment self) (length outlier_timestamp);
                     beta1 = adjust_param beta1 (self_param_adjustment self) (length outlier_timestamp);
                     beta2 = adjust_param beta1 (self_param_adjustment self) (length outlier_timestamp);
                     wd = lr * (case self_param_wd_scaling self (param_data p) of
                                  None \<Rightarrow> 0.0 | Some wd_scale \<Rightarrow> wd_scale);
                     h = lionw h (param_data p) grad exp_avg lr initial_lr wd beta1 beta2;
                     self = self\<lparr>self_state := (self_state self)(param_data p \<mapsto>
                               state\<lparr>state_moment_tracker := tracker,
                                     state_outlier_timestamp := outlier_timestamp,
                                     state_step := state_step state + 1\<rparr>)\<rparr>;
                     tmp_param_current_norm =
                       AList.update (param_data p) ((vector_norm (cells h (param_data p)))\<^sup>2)
                         tmp_param_current_norm
                 in Inr (h, self, tmp_param_init_norm, tmp_param_current_norm))))"

definition reduce_init_norm :: "dist \<Rightarrow> addr \<times> real \<Rightarrow> 'd FullyAdaptiveLion \<Rightarrow> error + 'd FullyAdaptiveLion" where
  \<comment> \<open>body of \<^verbatim>\<open>for p in tmp_param_init_norm\<close>\<close>
  "reduce_init_norm world pv self =
     (let (p, reduced) = pv;
          reduced = (if get_world_size world > 1 then all_reduce world reduced else reduced)
      in case math_sqrt reduced of
           Inl e \<Rightarrow> Inl e
         | Inr r \<Rightarrow> Inr (self\<lparr>self_param_init_norm := (self_param_init_norm self)(p \<mapsto> r)\<rparr>))"

definition reduce_current_norm :: "dist \<Rightarrow> addr \<times> real \<Rightarrow> (addr \<times> real) list \<Rightarrow> error + (addr \<times> real) list" where
  \<comment> \<open>body of the first \<^verbatim>\<open>for p in tmp_param_current_norm\<close>\<close>
  "reduce_current_norm world pv tmp_param_current_norm =
     (let (p, reduced) = pv;
          reduced = (if get_world_size world > 1 then all_reduce world reduced else reduced)
      in case math_sqrt reduced of
           Inl e \<Rightarrow> Inl e
         | Inr r \<Rightarrow> Inr (AList.update p r tmp_param_current_norm))"

definition store_wd_scaling :: "addr \<times> real \<Rightarrow> 'd FullyAdaptiveLion \<Rightarrow> error + 'd FullyAdaptiveLion" where
  \<comment> \<open>body of the second \<^verbatim>\<open>for p in tmp_param_current_norm\<close>\<close>
  "store_wd_scaling pv self =
     (let (p, p_t) = pv
      in case self_param_init_norm self p of
           None \<Rightarrow> Inl KeyError
         | Some p_0 \<Rightarrow>
            if p_0 = 0 then Inl ZeroDivisionError
            else (let wd_scale = (p_t - p_0) / p_0
                  in Inr (self\<lparr>self_param_wd_scaling := (self_param_wd_scaling self)(p \<mapsto> wd_scale)\<rparr>)))"

definition FullyAdaptiveLion_step :: "'d outlier_detection \<Rightarrow> dist \<Rightarrow> 'd FullyAdaptiveLion
    \<Rightarrow> (heap \<Rightarrow> 'l \<times> heap) option \<Rightarrow> heap \<Rightarrow> error + ('l option \<times> heap \<times> 'd FullyAdaptiveLion)" where
  "FullyAdaptiveLion_step det world self closure h =
     (let (loss, h) = run_closure closure h
      in case for_each (\<lambda>grp. for_each (FullyAdaptiveLion_step_body det world grp)
                                   (with_grad (group_params grp)))
                (self_param_groups self) (h, self, [], []) of
           Inl e \<Rightarrow> Inl e
         | Inr (h', self1, tmp_param_init_norm, tmp_param_current_norm) \<Rightarrow>
            (case for_each (reduce_init_norm world) tmp_param_init_norm self1 of
               Inl e \<Rightarrow> Inl e
             | Inr self2 \<Rightarrow>
                (case for_each (reduce_current_norm world) tmp_param_current_norm tmp_param_current_norm of
                   Inl e \<Rightarrow> Inl e
                 | Inr tmp_param_current_norm \<Rightarrow>
                    (case for_each store_wd_scaling tmp_param_current_norm self2 of
                       Inl e \<Rightarrow> Inl e
                     | Inr self' \<Rightarrow> Inr (loss, h', self')))))"

section \<open>Metric reduction (SkipLion)\<close>

text \<open>
  A metric map is a Python dictionary from keys to scalars; its order of iteration is
  the order of insertion, so it is an association list with distinct keys, read by
  \<open>map_of\<close> and written in place by \<open>AList.update\<close>. \<open>split_on\<close> is \<^verbatim>\<open>str.split(sep)\<close>
  for a separator of one character. \<open>sibling_keys\<close> is the four lines that both
  functions use to find the two norms of a cosine key: unpacking a split of the wrong
  length raises.
\<close>

type_synonym metrics = "(string \<times> real) list"

fun split_on :: "char \<Rightarrow> string \<Rightarrow> string list" where
  "split_on c [] = [[]]"
| "split_on c (x # xs) =
     (if x = c then [] # split_on c xs
      else (case split_on c xs of [] \<Rightarrow> [[x]] | w # ws \<Rightarrow> (x # w) # ws))"

definition sibling_keys :: "string \<Rightarrow> error + string \<times> string" where
  "sibling_keys metric =
     (case split_on CHR ''/'' metric of
        [_, vectors, layer] \<Rightarrow>
          (case split_on CHR ''_'' vectors of
             [A, B] \<Rightarrow> Inr (''l2_norm/'' @ A @ ''/'' @ layer, ''l2_norm/'' @ B @ ''/'' @ layer)
           | _ \<Rightarrow> Inl ValueError)
      | _ \<Rightarrow> Inl ValueError)"

definition getitem :: "metrics \<Rightarrow> string \<Rightarrow> error + real" where
  "getitem optimizer_metrics key =
     (case map_of optimizer_metrics key of None \<Rightarrow> Inl KeyError | Some v \<Rightarrow> Inr v)"

definition pre_reduce_body :: "string \<Rightarrow> metrics \<Rightarrow> error + metrics" where
  "pre_reduce_body metric optimizer_metrics =
     (if prefix ''l2_norm'' metric then
        (case getitem optimizer_metrics metric of
           Inl e \<Rightarrow> Inl e
         | Inr v \<Rightarrow> Inr (AList.update metric (v\<^sup>2) optimizer_metrics))
      else if prefix ''cosine'' metric then
        (case sibling_keys metric of
           Inl e \<Rightarrow> Inl e
         | Inr (A_key, B_key) \<Rightarrow>
            (case getitem optimizer_metrics A_key of
               Inl e \<Rightarrow> Inl e
             | Inr a \<Rightarrow>
                (case math_sqrt a of
                   Inl e \<Rightarrow> Inl e
                 | Inr A_rank_subset_norm \<Rightarrow>
                    (case getitem optimizer_metrics B_key of
                       Inl e \<Rightarrow> Inl e
                     | Inr b \<Rightarrow>
                        (case math_sqrt b of
                           Inl e \<Rightarrow> Inl e
                         | Inr B_rank_subset_norm \<Rightarrow>
                            (case getitem optimizer_metrics metric of
                               Inl e \<Rightarrow> Inl e
                             | Inr v \<Rightarrow> Inr (AList.update metric
                                               (v * (A_rank_subset_norm * B_rank_subset_norm))
                                               optimizer_metrics)))))))
      else Inr optimizer_metrics)"

definition pre_reduce_metrics :: "metrics \<Rightarrow> error + metrics" where
  "pre_reduce_metrics optimizer_metrics =
     (let metrics = map fst optimizer_metrics;
          metrics = sort_key (\<lambda>metric. if sublist ''l2_norm'' metric then (0::nat) else 1) metrics
      in for_each pre_reduce_body metrics optimizer_metrics)"

text \<open>
  The values of a metric map are scalar tensors (\<^verbatim>\<open>report_per_parameter_metrics\<close> puts
  norms and cosines there), so a division by zero raises nothing and yields \<^verbatim>\<open>inf\<close> or
  \<^verbatim>\<open>nan\<close>; as for tensors, a parameter \<open>at_zero\<close> stands for what a real can keep of it.
\<close>

definition s_div :: "(real \<Rightarrow> real) \<Rightarrow> real \<Rightarrow> real \<Rightarrow> real" where
  "s_div at_zero x c = (if c = 0 then at_zero x else x / c)"

definition dist_reduce_body :: "(real \<Rightarrow> real) \<Rightarrow> dist \<Rightarrow> string \<Rightarrow> metrics \<Rightarrow> error + metrics" where
  "dist_reduce_body at_zero world metric optimizer_metrics =
     (if prefix ''l2_norm'' metric then
        (case getitem optimizer_metrics metric of
           Inl e \<Rightarrow> Inl e
         | Inr reduced \<Rightarrow>
            (let reduced = (if get_world_size world > 1 then all_reduce world reduced else reduced)
             in case math_sqrt reduced of
                  Inl e \<Rightarrow> Inl e
                | Inr r \<Rightarrow> Inr (AList.update metric r optimizer_metrics)))
      else if prefix ''cosine'' metric then
        (case getitem optimizer_metrics metric of
           Inl e \<Rightarrow> Inl e
         | Inr reduced \<Rightarrow>
            (let reduced = (if get_world_size world > 1 then all_reduce world reduced else reduced)
             in case sibling_keys metric of
                  Inl e \<Rightarrow> Inl e
                | Inr (A_key, B_key) \<Rightarrow>
                   (case getitem optimizer_metrics A_key of
                      Inl e \<Rightarrow> Inl e
                    | Inr A_reduced_norm \<Rightarrow>
                       (case getitem optimizer_metrics B_key of
                          Inl e \<Rightarrow> Inl e
                        | Inr B_reduced_norm \<Rightarrow>
                           Inr (AList.update metric
                                  (s_div at_zero reduced (A_reduced_norm * B_reduced_norm))
                                  optimizer_metrics)))))
      else if prefix ''skipped_batches'' metric then Inr optimizer_metrics
      else
        (case getitem optimizer_metrics metric of
           Inl e \<Rightarrow> Inl e
         | Inr reduced \<Rightarrow>
            (let reduced = (if get_world_size world > 1 then all_reduce world reduced else reduced)
             in Inr (AList.update metric (s_div at_zero reduced (real (get_world_size world)))
                       optimizer_metrics))))"

definition dist_reduce_metrics :: "(real \<Rightarrow> real) \<Rightarrow> dist \<Rightarrow> metrics \<Rightarrow> error + metrics" where
  "dist_reduce_metrics at_zero world optimizer_metrics =
     for_each (dist_reduce_body at_zero world) (map fst optimizer_metrics) optimizer_metrics"

section \<open>Metric emission (SkipLion)\<close>

text \<open>
  \<^verbatim>\<open>metric_functions\<close> is the class dictionary of six closures over
  \<^verbatim>\<open>(param, optim_state, step_tensor)\<close>. \<^verbatim>\<open>torch.nn.functional.cosine_similarity\<close> is a
  parameter: torch clamps its denominator by an \<^verbatim>\<open>eps\<close> in a way that differs between
  versions. A tensor operation on a gradient that is \<^verbatim>\<open>None\<close> raises \<open>TypeError\<close>.
\<close>

definition metric_functions :: "(tensor \<Rightarrow> tensor \<Rightarrow> real)
    \<Rightarrow> (string \<times> (heap \<Rightarrow> param \<Rightarrow> 'd skip_state \<Rightarrow> addr \<Rightarrow> error + real)) list" where
  "metric_functions cosine_similarity =
     [(''l2_norm/moment'', \<lambda>h param optim_state step_tensor.
          Inr (vector_norm (cells h (state_exp_avg optim_state)))),
      (''l2_norm/param'', \<lambda>h param optim_state step_tensor.
          Inr (vector_norm (cells h (param_data param)))),
      (''l2_norm/update'', \<lambda>h param optim_state step_tensor.
          Inr (vector_norm (cells h step_tensor))),
      (''l2_norm/grad'', \<lambda>h param optim_state step_tensor.
          (case param_grad param of None \<Rightarrow> Inl TypeError
           | Some grad \<Rightarrow> Inr (vector_norm (cells h grad)))),
      (''cosine/update_grad'', \<lambda>h param optim_state step_tensor.
          (case param_grad param of None \<Rightarrow> Inl TypeError
           | Some grad \<Rightarrow> Inr (cosine_similarity (cells h grad) (cells h step_tensor)))),
      (''cosine/moment_grad'', \<lambda>h param optim_state step_tensor.
          (case param_grad param of None \<Rightarrow> Inl TypeError
           | Some grad \<Rightarrow> Inr (cosine_similarity (cells h grad)
                                  (cells h (state_exp_avg optim_state)))))]"

definition report_per_parameter_metrics :: "(tensor \<Rightarrow> tensor \<Rightarrow> real) \<Rightarrow> 'd SkipLion \<Rightarrow> heap
    \<Rightarrow> param \<Rightarrow> string \<Rightarrow> metrics \<Rightarrow> error + heap \<times> metrics" where
  "report_per_parameter_metrics cosine_similarity self h param name optimizer_metrics =
     (case self_param_groups self of
        [] \<Rightarrow> Inl IndexError
      | group0 # _ \<Rightarrow>
         (let lr = group_lr group0;
              weight_decay = group_weight_decay group0;
              initial_lr = group_initial_lr group0;
              (beta1, _) = group_betas group0
          in case self_state self (param_data param) of
               None \<Rightarrow> Inr (h, optimizer_metrics)
             | Some param_optim_state \<Rightarrow>
                (case param_grad param of
                   None \<Rightarrow> Inl TypeError
                 | Some grad \<Rightarrow>
                    (let (step_tensor, h) = clone h (state_exp_avg param_optim_state);
                         h = lerp_inplace h step_tensor grad (1 - beta1);
                         h = sign_inplace h step_tensor;
                         h = mul_inplace h step_tensor lr;
                         decay_factor = (if initial_lr \<noteq> 0 then lr / initial_lr else 1.0);
                         h = add_inplace h step_tensor (param_data param) (- weight_decay * decay_factor)
                     in case for_each
                               (\<lambda>(metric, f) m.
                                  case f h param param_optim_state step_tensor of
                                    Inl e \<Rightarrow> Inl e
                                  | Inr v \<Rightarrow> Inr (AList.update (metric @ ''/'' @ name) v m))
                               (metric_functions cosine_similarity) optimizer_metrics of
                          Inl e \<Rightarrow> Inl e
                        | Inr optimizer_metrics \<Rightarrow>
                           Inr (h, AList.update (''skipped_batches/'' @ name)
                                     (state_skipped_batches param_optim_state) optimizer_metrics)))))"

section \<open>Concrete collaborators for the examples\<close>

text \<open>
  Modelled from the spec: the class \<^verbatim>\<open>OutlierDetector\<close>, whose source file is missing.
  Section 4.1 of the specification: an observation above the slow reference times the
  threshold is an outlier and leaves both references alone; any other observation
  moves both references towards it by exponential smoothing; the first observation is
  never an outlier and seeds both. The smoothing weights \<open>1/2\<close> and \<open>1/10\<close> are a choice
  of this model, the specification leaves them open. It serves to run the theorems,
  which hold for every detector, on concrete inputs.
\<close>

definition spec_detector :: "(real \<times> (real \<times> real) option) outlier_detection" where
  "spec_detector =
     \<lparr>OutlierDetector = (\<lambda>threshold. (threshold, None)),
      insert_observation = (\<lambda>(threshold, refs) x.
         case refs of
           None \<Rightarrow> (False, (threshold, Some (x, x)))
         | Some (fast, slow) \<Rightarrow>
             if x > slow * threshold then (True, (threshold, Some (fast, slow)))
             else (False, (threshold, Some (fast + (x - fast) / 2, slow + (x - slow) / 10)))),
      get_slow_mva = (\<lambda>(threshold, refs). case refs of None \<Rightarrow> 0 | Some (fast, slow) \<Rightarrow> slow)\<rparr>"

definition single_worker :: dist where
  "single_worker = \<lparr>get_world_size = 1, all_reduce = (\<lambda>x. x)\<rparr>"

definition heap0 :: heap where
  \<comment> \<open>a parameter \<open>[1]\<close> at address 0, its gradient \<open>[2]\<close> at 1, its momentum \<open>[0]\<close> at 2\<close>
  "heap0 = \<lparr>cells = (\<lambda>_. [])(0 := [1], 1 := [2], 2 := [0]), next_addr = 3\<rparr>"

definition param0 :: param where
  "param0 = \<lparr>param_data = 0, param_grad = Some 1, param_requires_grad = True\<rparr>"

definition group0 :: wd_group where
  "group0 = \<lparr>group_params = [param0], group_lr = 1, group_betas = (1/2, 1/2),
             group_initial_lr = 1, group_weight_decay = 1/2\<rparr>"

definition skip_state0 :: "(real \<times> (real \<times> real) option) skip_state" where
  "skip_state0 = \<lparr>state_exp_avg = 2, state_moment_tracker = (10, Some (1/100, 1/100)),
                  state_skipped_batches = 0\<rparr>"

definition skip_self0 :: "(real \<times> (real \<times> real) option) SkipLion" where
  "skip_self0 = \<lparr>self_param_groups = [group0], self_state = [0 \<mapsto> skip_state0],
                 self_outlier_threshold = 10\<rparr>"






definition window_state0 :: "(real \<times> (real \<times> real) option) window_state" where
  \<comment> \<open>at step 60, with outliers recorded at steps 0 and 3\<close>
  "window_state0 = \<lparr>state_exp_avg = 2, state_moment_tracker = (10, Some (1/100, 1/100)),
                    state_outlier_timestamp = [0, 3], state_step = 60\<rparr>"




definition adalr_self0 :: "(real \<times> (real \<times> real) option) AdaLRLion" where
  "adalr_self0 = \<lparr>self_param_groups = [group0], self_state = [0 \<mapsto> window_state0],
                  self_outlier_threshold = 10, self_timeout = 50, self_lr_penalty = 1/2,
                  self_min_scale = 1/10\<rparr>"



section \<open>Properties of the update rule\<close>

lemma lionw_next_addr: "next_addr (lionw h p grad exp_avg lr initial_lr wd beta1 beta2) = Suc (next_addr h)"
  by (simp add: lionw_def Let_def lerp_def alloc_def store_def sign_inplace_def add_inplace_def
      lerp_inplace_def mul_inplace_def)

lemma lionw_cells_p:
  assumes "p \<noteq> exp_avg" "p < next_addr h" "exp_avg < next_addr h" "grad < next_addr h" "grad \<noteq> p"
  shows "cells (lionw h p grad exp_avg lr initial_lr wd beta1 beta2) p =
         t_add (if wd \<noteq> 0 then t_mul (cells h p) (1 - (if initial_lr \<noteq> 0 then lr / initial_lr else 1) * wd)
                else cells h p)
               (t_sign (t_lerp (cells h exp_avg) (cells h grad) (1 - beta1))) (- lr)"
  using assms
  by (simp add: lionw_def Let_def lerp_def alloc_def store_def sign_inplace_def add_inplace_def
      lerp_inplace_def mul_inplace_def)

lemma lionw_cells_exp_avg:
  assumes "p \<noteq> exp_avg" "p < next_addr h" "exp_avg < next_addr h" "grad < next_addr h" "grad \<noteq> exp_avg"
    and "grad \<noteq> p"
  shows "cells (lionw h p grad exp_avg lr initial_lr wd beta1 beta2) exp_avg =
         t_lerp (cells h exp_avg) (cells h grad) (1 - beta2)"
  using assms
  by (simp add: lionw_def Let_def lerp_def alloc_def store_def sign_inplace_def add_inplace_def
      lerp_inplace_def mul_inplace_def)

lemma lionw_cells_other:
  assumes "a \<noteq> p" "a \<noteq> exp_avg" "a \<noteq> next_addr h"
  shows "cells (lionw h p grad exp_avg lr initial_lr wd beta1 beta2) a = cells h a"
  using assms
  by (simp add: lionw_def Let_def lerp_def alloc_def store_def sign_inplace_def add_inplace_def
      lerp_inplace_def mul_inplace_def)

text \<open>
  C1. Every call of the shared update rule \<^verbatim>\<open>lionw(p, grad, exp_avg, lr, initial_lr, wd,
  beta1, beta2)\<close> on three distinct tensors of one shape: when \<open>wd \<noteq> 0\<close> each element of
  the parameter is first multiplied by \<open>1 - wd * (lr / initial_lr)\<close>, the factor being
  \<open>1 - wd * 1\<close> when \<open>initial_lr\<close> is zero, and when \<open>wd = 0\<close> it is not scaled; then it is
  decremented by \<open>lr\<close> times the sign (\<open>-1\<close>, \<open>0\<close> or \<open>1\<close>) of
  \<open>lerp(exp_avg, grad, 1 - beta1)\<close>; and the momentum tensor is overwritten in place by
  \<open>lerp(exp_avg, grad, 1 - beta2)\<close> of the old momentum. The gradient and the shapes are
  left as they were.
\<close>

theorem lionw_update_rule:
  assumes "p \<noteq> exp_avg" "grad \<noteq> p" "grad \<noteq> exp_avg"
    and "p < next_addr h" "grad < next_addr h" "exp_avg < next_addr h"
    and "length (cells h grad) = length (cells h p)"
    and "length (cells h exp_avg) = length (cells h p)"
    and "h' = lionw h p grad exp_avg lr initial_lr wd beta1 beta2"
    and "scale = (if wd = 0 then 1 else if initial_lr = 0 then 1 - wd * 1.0 else 1 - wd * (lr / initial_lr))"
    and "sign = (\<lambda>v::real. if v < 0 then - 1 else if v = 0 then 0 else 1)"
  shows "length (cells h' p) = length (cells h p)
       \<and> length (cells h' exp_avg) = length (cells h exp_avg)
       \<and> (\<forall>i < length (cells h p).
            cells h' p ! i = cells h p ! i * scale
               - lr * sign (cells h exp_avg ! i + (1 - beta1) * (cells h grad ! i - cells h exp_avg ! i)))
       \<and> (wd = 0 \<longrightarrow> (\<forall>i < length (cells h p).
            cells h' p ! i = cells h p ! i
               - lr * sign (cells h exp_avg ! i + (1 - beta1) * (cells h grad ! i - cells h exp_avg ! i))))
       \<and> (\<forall>i < length (cells h p).
            cells h' exp_avg ! i = cells h exp_avg ! i + (1 - beta2) * (cells h grad ! i - cells h exp_avg ! i))
       \<and> cells h' grad = cells h grad"
proof -
  have sg: "sgn v = sign v" for v :: real
    by (simp add: assms(11) sgn_if)
  have P: "cells h' p = t_add (if wd \<noteq> 0 then t_mul (cells h p) (1 - (if initial_lr \<noteq> 0 then lr / initial_lr else 1) * wd)
                else cells h p)
               (t_sign (t_lerp (cells h exp_avg) (cells h grad) (1 - beta1))) (- lr)"
    using assms(1,2,4,5,6) by (simp add: assms(9) lionw_cells_p)
  have E: "cells h' exp_avg = t_lerp (cells h exp_avg) (cells h grad) (1 - beta2)"
    using assms(1,2,3,4,5,6) by (simp add: assms(9) lionw_cells_exp_avg)
  have G: "cells h' grad = cells h grad"
    using assms(2,3,5) by (simp add: assms(9) lionw_cells_other)
  have L1: "length (cells h' p) = length (cells h p)"
    by (simp add: P t_add_def t_mul_def t_sign_def t_lerp_def assms(7,8))
  have L2: "length (cells h' exp_avg) = length (cells h exp_avg)"
    by (simp add: E t_lerp_def assms(7,8))
  have V: "cells h' p ! i = cells h p ! i * scale
               - lr * sign (cells h exp_avg ! i + (1 - beta1) * (cells h grad ! i - cells h exp_avg ! i))"
    if "i < length (cells h p)" for i
    using that by (simp add: P t_add_def t_mul_def t_sign_def t_lerp_def assms(7,8,10) sg algebra_simps)
  have M: "cells h' exp_avg ! i = cells h exp_avg ! i + (1 - beta2) * (cells h grad ! i - cells h exp_avg ! i)"
    if "i < length (cells h p)" for i
    using that by (simp add: E t_lerp_def assms(7,8))
  have W: "wd = 0 \<Longrightarrow> scale = 1"
    by (simp add: assms(10))
  show ?thesis
    using L1 L2 V M G W by simp
qed

theorem lionw_update_rule_witness:
  "(0::nat) \<noteq> 2 \<and> (1::nat) \<noteq> 0 \<and> (0::nat) < next_addr heap0
   \<and> length (cells heap0 1) = length (cells heap0 0)
   \<and> cells (lionw heap0 0 1 2 1 1 (1/2) (1/2) (1/2)) 0 ! 0 = - (1/2)
   \<and> cells (lionw heap0 0 1 2 1 1 (1/2) (1/2) (1/2)) 2 ! 0 = 1
   \<and> cells (lionw heap0 0 1 2 1 1 (1/2) (1/2) (1/2)) 1 = [2]"
  using lionw_update_rule [where h = heap0 and p = 0 and grad = 1 and exp_avg = 2 and lr = 1
      and initial_lr = 1 and wd = "1/2" and ?beta1.0 = "1/2" and ?beta2.0 = "1/2",
      OF _ _ _ _ _ _ _ _ refl refl refl]
  by (simp add: heap0_def)

section \<open>Construction-time validation\<close>

text \<open>
  C9. Each of the five constructors fails with an assertion error, and returns no
  optimizer, when \<open>lr \<le> 0\<close> or when one of the two betas lies outside \<open>[0, 1]\<close>. With a
  valid \<open>lr\<close> and valid betas, a \<open>weight_decay\<close> of \<open>0.001\<close> or more is accepted by the four
  constructors that take one: they return the optimizer, and the only thing logged is
  the warning about the high weight decay.
\<close>

theorem constructors_validate:
  fixes betas :: "real \<times> real"
  shows
  "(lr \<le> 0 \<or> \<not> (0 \<le> fst betas \<and> fst betas \<le> 1) \<or> \<not> (0 \<le> snd betas \<and> snd betas \<le> 1) \<longrightarrow>
      (SkipLion_init params lr betas weight_decay outlier_threshold
          :: error + ('a SkipLion \<times> warning list)) = Inl AssertionError
    \<and> (AdaBetaLion_init params lr betas weight_decay outlier_threshold increase timeout
          :: error + ('b AdaBetaLion \<times> warning list)) = Inl AssertionError
    \<and> (AdaLRLion_init params lr betas weight_decay outlier_threshold timeout lr_penalty min_scale
          :: error + ('c AdaLRLion \<times> warning list)) = Inl AssertionError
    \<and> (ClipLion_init params lr betas weight_decay outlier_threshold
          :: error + ('d ClipLion \<times> warning list)) = Inl AssertionError
    \<and> snd (FullyAdaptiveLion_init params lr betas outlier_threshold timeout param_adjustment
          :: real list \<times> (error + 'e FullyAdaptiveLion)) = Inl AssertionError)
   \<and> (0 < lr \<and> 0 \<le> fst betas \<and> fst betas \<le> 1 \<and> 0 \<le> snd betas \<and> snd betas \<le> 1
        \<and> weight_decay \<ge> 0.001 \<longrightarrow>
      (\<exists>self :: 'a SkipLion.
          SkipLion_init params lr betas weight_decay outlier_threshold
            = Inr (self, [HighWeightDecay weight_decay]))
    \<and> (\<exists>self :: 'b AdaBetaLion.
          AdaBetaLion_init params lr betas weight_decay outlier_threshold increase timeout
            = Inr (self, [HighWeightDecay weight_decay]))
    \<and> (\<exists>self :: 'c AdaLRLion.
          AdaLRLion_init params lr betas weight_decay outlier_threshold timeout lr_penalty min_scale
            = Inr (self, [HighWeightDecay weight_decay]))
    \<and> (\<exists>self :: 'd ClipLion.
          ClipLion_init params lr betas weight_decay outlier_threshold
            = Inr (self, [HighWeightDecay weight_decay])))"
  by (auto simp add: SkipLion_init_def AdaBetaLion_init_def AdaLRLion_init_def ClipLion_init_def
      FullyAdaptiveLion_init_def Let_def)

theorem constructors_validate_witness:
  "(SkipLion_init [[param0]] 0 (9/10, 99/100) (1/100) 10
       :: error + ((real \<times> (real \<times> real) option) SkipLion \<times> warning list)) = Inl AssertionError
   \<and> (ClipLion_init [[param0]] 1 (9/10, 2) (1/100) 10
       :: error + ((real \<times> (real \<times> real) option) ClipLion \<times> warning list)) = Inl AssertionError
   \<and> (\<exists>self :: (real \<times> (real \<times> real) option) AdaBetaLion.
         AdaBetaLion_init [[param0]] 1 (9/10, 99/100) (1/100) 10 True 50
           = Inr (self, [HighWeightDecay (1/100)]))"
  using constructors_validate [where lr = 0 and betas = "(9/10, 99/100)" and params = "[[param0]]"
      and weight_decay = "1/100" and outlier_threshold = 10 and increase = True and timeout = 50
      and lr_penalty = 1 and min_scale = 1 and param_adjustment = 1,
      where ?'a = "real \<times> (real \<times> real) option" and ?'b = "real \<times> (real \<times> real) option" and ?'c = "real \<times> (real \<times> real) option" and ?'d = "real \<times> (real \<times> real) option" and ?'e = "real \<times> (real \<times> real) option"]
    constructors_validate [where lr = 1 and betas = "(9/10, 2)" and params = "[[param0]]"
      and weight_decay = "1/100" and outlier_threshold = 10 and increase = True and timeout = 50
      and lr_penalty = 1 and min_scale = 1 and param_adjustment = 1,
      where ?'a = "real \<times> (real \<times> real) option" and ?'b = "real \<times> (real \<times> real) option" and ?'c = "real \<times> (real \<times> real) option" and ?'d = "real \<times> (real \<times> real) option" and ?'e = "real \<times> (real \<times> real) option"]
    constructors_validate [where lr = 1 and betas = "(9/10, 99/100)" and params = "[[param0]]"
      and weight_decay = "1/100" and outlier_threshold = 10 and increase = True and timeout = 50
      and lr_penalty = 1 and min_scale = 1 and param_adjustment = 1,
      where ?'a = "real \<times> (real \<times> real) option" and ?'b = "real \<times> (real \<times> real) option" and ?'c = "real \<times> (real \<times> real) option" and ?'d = "real \<times> (real \<times> real) option" and ?'e = "real \<times> (real \<times> real) option"]
  by simp

section \<open>SkipLion: the skip policy\<close>

lemma sum_squares_nonneg: "0 \<le> sum_list (map (\<lambda>x::real. x\<^sup>2) t)"
  by (rule sum_list_nonneg) auto

lemma vector_norm_nonneg: "0 \<le> vector_norm t"
  by (simp add: vector_norm_def sum_squares_nonneg)

lemma vector_norm_sq_nonneg: "0 \<le> (vector_norm t)\<^sup>2"
  by simp

lemma math_sqrt_nonneg: "0 \<le> x \<Longrightarrow> math_sqrt x = Inr (sqrt x)"
  by (simp add: math_sqrt_def)

lemma lerp_eq: "lerp h a b w = (next_addr h, h\<lparr>cells := (cells h)(next_addr h := t_lerp (cells h a) (cells h b) w),
                                                  next_addr := Suc (next_addr h)\<rparr>)"
  by (simp add: lerp_def alloc_def)

lemma lionw_agree:
  assumes "p \<noteq> exp_avg" "grad \<noteq> p" "grad \<noteq> exp_avg"
    and "p < next_addr h" "grad < next_addr h" "exp_avg < next_addr h"
    and "p < next_addr k" "grad < next_addr k" "exp_avg < next_addr k"
    and "cells k p = cells h p" "cells k grad = cells h grad" "cells k exp_avg = cells h exp_avg"
  shows "cells (lionw k p grad exp_avg lr initial_lr wd beta1 beta2) p
           = cells (lionw h p grad exp_avg lr initial_lr wd beta1 beta2) p
       \<and> cells (lionw k p grad exp_avg lr initial_lr wd beta1 beta2) exp_avg
           = cells (lionw h p grad exp_avg lr initial_lr wd beta1 beta2) exp_avg"
  using assms by (simp add: lionw_cells_p lionw_cells_exp_avg)

lemma SkipLion_init_state_props:
  assumes "SkipLion_init_state det self h p = (h0, s)"
    and "param_data p < next_addr h" "grad < next_addr h"
    and "\<forall>s. self_state self (param_data p) = Some s \<longrightarrow>
           state_exp_avg s < next_addr h \<and> state_exp_avg s \<noteq> param_data p \<and> state_exp_avg s \<noteq> grad"
  shows "state_exp_avg s < next_addr h0 \<and> state_exp_avg s \<noteq> param_data p \<and> state_exp_avg s \<noteq> grad
       \<and> param_data p < next_addr h0 \<and> grad < next_addr h0
       \<and> cells h0 (param_data p) = cells h (param_data p) \<and> cells h0 grad = cells h grad
       \<and> (\<forall>a < next_addr h. cells h0 a = cells h a)"
  using assms
  by (auto simp add: SkipLion_init_state_def zeros_like_def alloc_def split: option.splits)

lemma SkipLion_step_body_eq:
  assumes "param_grad p = Some grad"
    and "SkipLion_init_state det self h p = (h0, s)"
    and "m = (vector_norm (t_lerp (cells h0 (state_exp_avg s)) (cells h0 grad) (1 - snd (group_betas grp))))\<^sup>2"
    and "r = (if get_world_size world > 1 then all_reduce world m else m)"
    and "0 \<le> r"
    and "insert_observation det (state_moment_tracker s) (sqrt r) = (flag, tracker)"
    and "h1 = snd (lerp h0 (state_exp_avg s) grad (1 - snd (group_betas grp)))"
  shows "SkipLion_step_body det world grp p (h, self) =
           (if flag
            then Inr (h1, self\<lparr>self_state := (self_state self)(param_data p \<mapsto>
                             s\<lparr>state_moment_tracker := tracker,
                               state_skipped_batches := state_skipped_batches s + 1\<rparr>)\<rparr>)
            else Inr (lionw h1 (param_data p) grad (state_exp_avg s) (group_lr grp) (group_initial_lr grp)
                        (group_weight_decay grp) (fst (group_betas grp)) (snd (group_betas grp)),
                      self\<lparr>self_state := (self_state self)(param_data p \<mapsto>
                             s\<lparr>state_moment_tracker := tracker\<rparr>)\<rparr>))"
proof -
  obtain beta1 beta2 where B: "group_betas grp = (beta1, beta2)"
    by (cases "group_betas grp") auto
  have R: "math_sqrt r = Inr (sqrt r)"
    using assms(5) by (rule math_sqrt_nonneg)
  show ?thesis
  proof (cases "get_world_size world > 1")
    case True
    then show ?thesis
      using assms(1,2,3,4,6,7) R B
      by (cases flag) (simp_all add: SkipLion_step_body_def Let_def lerp_eq)
  next
    case False
    then show ?thesis
      using assms(1,2,3,4,6,7) R B
      by (cases flag) (simp_all add: SkipLion_step_body_def Let_def lerp_eq)
  qed
qed


text \<open>
  C2. One SkipLion step on a parameter with a gradient. The observation is the norm of
  \<open>lerp(exp_avg, grad, 1 - beta2)\<close>, reduced over the workers. When the detector flags
  it, the parameter and the momentum are as before the step and \<open>skipped_batches\<close> has
  grown by exactly one; when it does not, \<open>skipped_batches\<close> is unchanged and parameter
  and momentum are what \<open>lionw\<close> makes of them with the group's \<open>lr\<close>, \<open>initial_lr\<close>,
  \<open>weight_decay\<close>, \<open>beta1\<close> and \<open>beta2\<close>. The step returns in both cases. \<open>(h0, s)\<close> is
  the store and the state after the lazy initialisation, which are the given ones when
  the parameter already has a state.
\<close>

theorem SkipLion_skip_policy:
  assumes "param_grad p = Some grad"
    and "param_data p < next_addr h" "grad < next_addr h" "grad \<noteq> param_data p"
    and "\<forall>s. self_state self (param_data p) = Some s \<longrightarrow>
           state_exp_avg s < next_addr h \<and> state_exp_avg s \<noteq> param_data p \<and> state_exp_avg s \<noteq> grad"
    and "get_world_size world \<le> 1 \<or> (\<forall>x. 0 \<le> x \<longrightarrow> 0 \<le> all_reduce world x)"
    and "SkipLion_init_state det self h p = (h0, s)"
    and "m = (vector_norm (t_lerp (cells h0 (state_exp_avg s)) (cells h0 grad)
                 (1 - snd (group_betas grp))))\<^sup>2"
    and "insert_observation det (state_moment_tracker s)
           (sqrt (if get_world_size world > 1 then all_reduce world m else m)) = (flag, tracker)"
    and "u = lionw h0 (param_data p) grad (state_exp_avg s) (group_lr grp) (group_initial_lr grp)
               (group_weight_decay grp) (fst (group_betas grp)) (snd (group_betas grp))"
  shows "\<exists>h' self' s'.
           SkipLion_step_body det world grp p (h, self) = Inr (h', self')
         \<and> self_state self' (param_data p) = Some s'
         \<and> state_exp_avg s' = state_exp_avg s
         \<and> (self_state self (param_data p) \<noteq> None \<longrightarrow> h0 = h \<and> self_state self (param_data p) = Some s)
         \<and> (flag \<longrightarrow> cells h' (param_data p) = cells h (param_data p)
                    \<and> cells h' (state_exp_avg s) = cells h0 (state_exp_avg s)
                    \<and> state_skipped_batches s' = state_skipped_batches s + 1)
         \<and> (\<not> flag \<longrightarrow> state_skipped_batches s' = state_skipped_batches s
                    \<and> cells h' (param_data p) = cells u (param_data p)
                    \<and> cells h' (state_exp_avg s) = cells u (state_exp_avg s))"
proof -
  define r where "r = (if get_world_size world > 1 then all_reduce world m else m)"
  define h1 where "h1 = snd (lerp h0 (state_exp_avg s) grad (1 - snd (group_betas grp)))"
  have m0: "0 \<le> m"
    by (simp add: assms(8))
  have r0: "0 \<le> r"
    using assms(6) m0 by (auto simp add: r_def)
  have P: "state_exp_avg s < next_addr h0 \<and> state_exp_avg s \<noteq> param_data p \<and> state_exp_avg s \<noteq> grad
       \<and> param_data p < next_addr h0 \<and> grad < next_addr h0
       \<and> cells h0 (param_data p) = cells h (param_data p) \<and> cells h0 grad = cells h grad
       \<and> (\<forall>a < next_addr h. cells h0 a = cells h a)"
    using assms(7,2,3,5) by (rule SkipLion_init_state_props)
  have E: "SkipLion_step_body det world grp p (h, self) =
           (if flag
            then Inr (h1, self\<lparr>self_state := (self_state self)(param_data p \<mapsto>
                             s\<lparr>state_moment_tracker := tracker,
                               state_skipped_batches := state_skipped_batches s + 1\<rparr>)\<rparr>)
            else Inr (lionw h1 (param_data p) grad (state_exp_avg s) (group_lr grp) (group_initial_lr grp)
                        (group_weight_decay grp) (fst (group_betas grp)) (snd (group_betas grp)),
                      self\<lparr>self_state := (self_state self)(param_data p \<mapsto>
                             s\<lparr>state_moment_tracker := tracker\<rparr>)\<rparr>))"
    using assms(1,7,8) r_def r0 assms(9) [folded r_def] h1_def by (rule SkipLion_step_body_eq)
  have H1: "next_addr h1 = Suc (next_addr h0) \<and> (\<forall>a. a \<noteq> next_addr h0 \<longrightarrow> cells h1 a = cells h0 a)"
    by (simp add: h1_def lerp_eq)
  have I: "self_state self (param_data p) \<noteq> None \<longrightarrow> h0 = h \<and> self_state self (param_data p) = Some s"
    using assms(7) by (auto simp add: SkipLion_init_state_def)
  show ?thesis
  proof (cases flag)
    case True
    then show ?thesis
      using E P H1 I by auto
  next
    case False
    have "cells (lionw h1 (param_data p) grad (state_exp_avg s) (group_lr grp) (group_initial_lr grp)
                        (group_weight_decay grp) (fst (group_betas grp)) (snd (group_betas grp))) (param_data p)
            = cells u (param_data p)
        \<and> cells (lionw h1 (param_data p) grad (state_exp_avg s) (group_lr grp) (group_initial_lr grp)
                        (group_weight_decay grp) (fst (group_betas grp)) (snd (group_betas grp))) (state_exp_avg s)
            = cells u (state_exp_avg s)"
      unfolding assms(10)
      by (rule lionw_agree) (use P H1 assms(4) in auto)
    then show ?thesis
      using False E I by auto
  qed
qed

theorem SkipLion_skip_policy_witness:
  "param_grad param0 = Some 1 \<and> param_data param0 < next_addr heap0
   \<and> SkipLion_init_state spec_detector skip_self0 heap0 param0 = (heap0, skip_state0)
   \<and> insert_observation spec_detector (state_moment_tracker skip_state0) 1 = (True, (10, Some (1/100, 1/100)))
   \<and> (\<exists>h' self' s'.
         SkipLion_step_body spec_detector single_worker group0 param0 (heap0, skip_self0) = Inr (h', self')
       \<and> self_state self' 0 = Some s'
       \<and> cells h' 0 = [1] \<and> cells h' 2 = [0] \<and> state_skipped_batches s' = 1)"
proof -
  have g: "param_grad param0 = Some 1"
    by (simp add: param0_def)
  have a1: "param_data param0 < next_addr heap0"
    by (simp add: param0_def heap0_def)
  have a2: "1 < next_addr heap0"
    by (simp add: heap0_def)
  have a3: "1 \<noteq> param_data param0"
    by (simp add: param0_def)
  have a4: "\<forall>s. self_state skip_self0 (param_data param0) = Some s \<longrightarrow>
           state_exp_avg s < next_addr heap0 \<and> state_exp_avg s \<noteq> param_data param0 \<and> state_exp_avg s \<noteq> 1"
    by (simp add: skip_self0_def param0_def skip_state0_def heap0_def)
  have a5: "get_world_size single_worker \<le> 1 \<or> (\<forall>x. 0 \<le> x \<longrightarrow> 0 \<le> all_reduce single_worker x)"
    by (simp add: single_worker_def)
  have i: "SkipLion_init_state spec_detector skip_self0 heap0 param0 = (heap0, skip_state0)"
    by (simp add: SkipLion_init_state_def skip_self0_def param0_def)
  have o: "insert_observation spec_detector (state_moment_tracker skip_state0) 1
             = (True, (10, Some (1/100, 1/100)))"
    by (simp add: spec_detector_def skip_state0_def)
  have n: "sqrt (if get_world_size single_worker > 1
                    then all_reduce single_worker ((vector_norm (t_lerp (cells heap0 (state_exp_avg skip_state0))
                            (cells heap0 1) (1 - snd (group_betas group0))))\<^sup>2)
                    else (vector_norm (t_lerp (cells heap0 (state_exp_avg skip_state0))
                            (cells heap0 1) (1 - snd (group_betas group0))))\<^sup>2) = 1"
    by (simp add: skip_state0_def single_worker_def heap0_def group0_def vector_norm_def t_lerp_def)
  have f: "insert_observation spec_detector (state_moment_tracker skip_state0)
             (sqrt (if get_world_size single_worker > 1
                    then all_reduce single_worker ((vector_norm (t_lerp (cells heap0 (state_exp_avg skip_state0))
                            (cells heap0 1) (1 - snd (group_betas group0))))\<^sup>2)
                    else (vector_norm (t_lerp (cells heap0 (state_exp_avg skip_state0))
                            (cells heap0 1) (1 - snd (group_betas group0))))\<^sup>2))
           = (True, (10, Some (1/100, 1/100)))"
    unfolding n by (rule o)
  have v: "param_data param0 = 0" "state_exp_avg skip_state0 = 2" "cells heap0 0 = [1]"
    "cells heap0 2 = [0]" "state_skipped_batches skip_state0 = 0"
    by (simp_all add: param0_def skip_state0_def heap0_def)
  show ?thesis
    using SkipLion_skip_policy [OF g a1 a2 a3 a4 a5 i refl f refl] g a1 i o
    by (simp add: v) blast
qed

section \<open>ClipLion: clipping a flagged gradient\<close>


lemma sum_squares_scaled:
  "sum_list (map (\<lambda>x::real. x\<^sup>2) (map (\<lambda>x. x * k) t)) = k\<^sup>2 * sum_list (map (\<lambda>x. x\<^sup>2) t)"
  by (induction t) (simp_all add: power_mult_distrib algebra_simps)

lemma vector_norm_scaled: "vector_norm (map (\<lambda>x. x * k) t) = \<bar>k\<bar> * vector_norm t"
proof -
  have "vector_norm (map (\<lambda>x. x * k) t) = sqrt (k\<^sup>2 * sum_list (map (\<lambda>x. x\<^sup>2) t))"
    unfolding vector_norm_def by (simp only: sum_squares_scaled)
  then show ?thesis
    by (simp add: vector_norm_def real_sqrt_mult)
qed




text \<open>
  Over the reals, a tensor of nonzero norm that is divided by its norm and multiplied by
  \<open>c\<close> is the tensor scaled by \<open>c / norm\<close>, and its norm is \<open>\<bar>c\<bar>\<close>. Floating-point
  division, multiplication and norm round, so that in the program this holds up to rounding
  only.
\<close>

lemma clipped_gradient_norm_real:
  assumes "vector_norm t \<noteq> 0"
  shows "t_mul (t_div at_zero t (vector_norm t)) c = map (\<lambda>x. x * (c / vector_norm t)) t
       \<and> vector_norm (t_mul (t_div at_zero t (vector_norm t)) c) = \<bar>c\<bar>"
proof -
  have v1: "0 < vector_norm t"
    using vector_norm_nonneg [of t] assms by simp
  have e1: "t_mul (t_div at_zero t (vector_norm t)) c = map (\<lambda>x. x * (c / vector_norm t)) t"
    using assms by (simp add: t_mul_def t_div_def)
  have "vector_norm (map (\<lambda>x. x * (c / vector_norm t)) t) = \<bar>c / vector_norm t\<bar> * vector_norm t"
    by (rule vector_norm_scaled)
  also have "\<dots> = \<bar>c\<bar>"
    using v1 by (simp add: abs_mult)
  finally show ?thesis
    using e1 by simp
qed




section \<open>The bodies of the three window optimizers, evaluated\<close>















lemma AdaLRLion_step_body_eq:
  assumes "param_grad p = Some grad"
    and "window_init_state det (self_outlier_threshold self) (self_state self) h p = (h0, s)"
    and "m = (vector_norm (t_lerp (cells h0 (state_exp_avg s)) (cells h0 grad) (1 - snd (group_betas grp))))\<^sup>2"
    and "r = (if get_world_size world > 1 then all_reduce world m else m)"
    and "0 \<le> r"
    and "insert_observation det (state_moment_tracker s) (sqrt r) = (flag, tracker)"
    and "h1 = snd (lerp h0 (state_exp_avg s) grad (1 - snd (group_betas grp)))"
    and "w = evict (self_timeout self) (state_step s)
               (if flag then state_outlier_timestamp s @ [state_step s] else state_outlier_timestamp s)"
  shows "AdaLRLion_step_body det world grp p (h, self) =
           (case adjust_lr (group_lr grp) (self_lr_penalty self) (length w) (self_min_scale self) of
              Inl e \<Rightarrow> Inl e
            | Inr lr \<Rightarrow>
               Inr (lionw h1 (param_data p) grad (state_exp_avg s) lr
                      (group_initial_lr grp) (group_weight_decay grp)
                      (fst (group_betas grp)) (snd (group_betas grp)),
                    self\<lparr>self_state := (self_state self)(param_data p \<mapsto>
                           s\<lparr>state_moment_tracker := tracker, state_outlier_timestamp := w,
                             state_step := state_step s + 1\<rparr>)\<rparr>))"
proof -
  obtain beta1 beta2 where B: "group_betas grp = (beta1, beta2)"
    by (cases "group_betas grp") auto
  have R: "math_sqrt r = Inr (sqrt r)"
    using assms(5) by (simp add: math_sqrt_def)
  show ?thesis
  proof (cases "get_world_size world > 1")
    case True
    then show ?thesis
      using assms(1,2,3,4,6,7,8) R B
      by (cases flag) (simp_all add: AdaLRLion_step_body_def Let_def lerp_eq split: sum.splits)
  next
    case False
    then show ?thesis
      using assms(1,2,3,4,6,7,8) R B
      by (cases flag) (simp_all add: AdaLRLion_step_body_def Let_def lerp_eq split: sum.splits)
  qed
qed


section \<open>AdaBetaLion: the adapted betas\<close>






section \<open>FullyAdaptiveLion: the adapted learning rate and betas\<close>






end
